theory Spec2Isabelle
  imports Main
begin

section \<open>Python strings\<close>

text \<open>
  A Python \<open>str\<close> is modelled as a \<open>string\<close>, one \<open>char\<close> per code point (code points
  0 to 255). The operations below are the ones \<open>src/app.py\<close> calls on strings:
  \<open>startswith\<close>, \<open>endswith\<close>, \<open>lower\<close>, \<open>strip(chars)\<close>, \<open>split(sep)\<close> with a
  one-character separator, \<open>sep.join\<close>, \<open>in\<close> (substring test) and \<open>replace\<close>.
\<close>

definition startswith :: "string \<Rightarrow> string \<Rightarrow> bool" where
  "startswith s p \<longleftrightarrow> take (length p) s = p"

definition endswith :: "string \<Rightarrow> string \<Rightarrow> bool" where
  "endswith s p \<longleftrightarrow> length p \<le> length s \<and> drop (length s - length p) s = p"

definition lower_char :: "char \<Rightarrow> char" where
  "lower_char c =
     (let n = (of_char c :: nat)
      in if (65 \<le> n \<and> n \<le> 90) \<or> (192 \<le> n \<and> n \<le> 222 \<and> n \<noteq> 215)
         then char_of (n + 32) else c)"

definition py_lower :: "string \<Rightarrow> string" where
  "py_lower s = map lower_char s"

definition py_strip :: "string \<Rightarrow> string \<Rightarrow> string" where
  "py_strip chars s =
     rev (dropWhile (\<lambda>c. c \<in> set chars) (rev (dropWhile (\<lambda>c. c \<in> set chars) s)))"

fun split_on :: "char \<Rightarrow> string \<Rightarrow> string list" where
  "split_on sep [] = [[]]"
| "split_on sep (c # cs) =
     (if c = sep then [] # split_on sep cs
      else (case split_on sep cs of
              [] \<Rightarrow> [[c]]
            | w # ws \<Rightarrow> (c # w) # ws))"

fun join_with :: "string \<Rightarrow> string list \<Rightarrow> string" where
  "join_with sep [] = []"
| "join_with sep [x] = x"
| "join_with sep (x # y # ys) = x @ sep @ join_with sep (y # ys)"

fun contains :: "string \<Rightarrow> string \<Rightarrow> bool" where
  "contains [] p = (p = [])"
| "contains (c # cs) p = (startswith (c # cs) p \<or> contains cs p)"

text \<open>
  \<open>s.replace(old, new)\<close>: every non-overlapping occurrence of \<open>old\<close>, scanning from the
  left, is replaced. With an empty \<open>old\<close> Python inserts \<open>new\<close> before every character and
  at the end.
\<close>

fun replace_nonempty :: "string \<Rightarrow> string \<Rightarrow> string \<Rightarrow> string" where
  "replace_nonempty old new [] = []"
| "replace_nonempty old new (c # cs) =
     (if old \<noteq> [] \<and> startswith (c # cs) old
      then new @ replace_nonempty old new (drop (length old - 1) cs)
      else c # replace_nonempty old new cs)"

definition py_replace :: "string \<Rightarrow> string \<Rightarrow> string \<Rightarrow> string" where
  "py_replace s old new =
     (if old = [] then concat (map (\<lambda>c. new @ [c]) s) @ new
      else replace_nonempty old new s)"

section \<open>Helper functions of the module\<close>

subsection \<open>\<open>sanitize_filename\<close>\<close>

text \<open>
  The character class \<open>[<>:"/\\|?*\x00-\x1f]\<close> of the first \<open>re.sub\<close>.
\<close>

definition illegal_char :: "char \<Rightarrow> bool" where
  "illegal_char c \<longleftrightarrow>
     c \<in> set [CHR ''<'', CHR ''>'', CHR '':'', CHR 0x22, CHR ''/'', CHR 0x5C,
               CHR ''|'', CHR ''?'', CHR ''*'']
     \<or> (of_char c :: nat) \<le> 31"

definition replace_illegal :: "string \<Rightarrow> string" where
  "replace_illegal s = map (\<lambda>c. if illegal_char c then CHR ''_'' else c) s"

text \<open>\<open>re.sub(r'_+', '_', filename)\<close>: every maximal run of underscores becomes one.\<close>

fun collapse_underscores :: "string \<Rightarrow> string" where
  "collapse_underscores (a # b # cs) =
     (if a = CHR ''_'' \<and> b = CHR ''_'' then collapse_underscores (b # cs)
      else a # collapse_underscores (b # cs))"
| "collapse_underscores cs = cs"

definition sanitize_filename :: "string \<Rightarrow> string" where
  "sanitize_filename filename =
     (let f1 = replace_illegal filename;
          f2 = collapse_underscores f1;
          f3 = py_strip ''_ '' f2;
          f4 = (if f3 = [] then ''untitled'' else f3)
      in take 200 f4)"

text \<open>
  Two auxiliary notions for the proofs about \<open>sanitize_filename\<close>: a string with two
  adjacent underscores, and the value of \<open>filename\<close> after the \<open>strip\<close>.
\<close>

fun has_double :: "string \<Rightarrow> bool" where
  "has_double (a # b # cs) = ((a = CHR ''_'' \<and> b = CHR ''_'') \<or> has_double (b # cs))"
| "has_double cs = False"

definition stripped :: "string \<Rightarrow> string" where
  "stripped s = py_strip ''_ '' (collapse_underscores (replace_illegal s))"

section \<open>The \<open>os.path\<close> functions the worker calls (POSIX)\<close>

definition isabs :: "string \<Rightarrow> bool" where
  "isabs p \<longleftrightarrow> startswith p ''/''"

definition join_step :: "string \<Rightarrow> string \<Rightarrow> string" where
  "join_step path b =
     (if startswith b ''/'' then b
      else if path = [] \<or> endswith path ''/'' then path @ b
      else path @ ''/'' @ b)"

definition path_join :: "string \<Rightarrow> string list \<Rightarrow> string" where
  "path_join a p = foldl join_step a p"

definition norm_step :: "bool \<Rightarrow> string list \<Rightarrow> string \<Rightarrow> string list" where
  "norm_step initial_slashes new_comps part =
     (if part = [] \<or> part = ''.'' then new_comps
      else if part \<noteq> ''..'' \<or> (\<not> initial_slashes \<and> new_comps = [])
              \<or> (new_comps \<noteq> [] \<and> last new_comps = ''..'')
           then new_comps @ [part]
      else if new_comps \<noteq> [] then butlast new_comps
      else new_comps)"

definition normpath :: "string \<Rightarrow> string" where
  "normpath path =
     (if path = [] then ''.''
      else
        let initial_slashes =
              (if startswith path ''/''
               then (if startswith path ''//'' \<and> \<not> startswith path ''///'' then 2 else 1)
               else (0::nat));
            comps = foldl (norm_step (initial_slashes \<noteq> 0)) [] (split_on CHR ''/'' path);
            p = replicate initial_slashes CHR ''/'' @ join_with ''/'' comps
        in if p = [] then ''.'' else p)"

definition abspath :: "string \<Rightarrow> string \<Rightarrow> string" where
  "abspath cwd path = normpath (if isabs path then path else path_join cwd [path])"

fun commonprefix :: "string list \<Rightarrow> string list \<Rightarrow> string list" where
  "commonprefix (x # xs) (y # ys) = (if x = y then x # commonprefix xs ys else [])"
| "commonprefix xs ys = []"

definition path_parts :: "string \<Rightarrow> string list" where
  "path_parts p = filter (\<lambda>x. x \<noteq> []) (split_on CHR ''/'' p)"

definition relpath :: "string \<Rightarrow> string \<Rightarrow> string \<Rightarrow> string option" where
  "relpath cwd path start =
     (if path = [] then None
      else
        let start_list = path_parts (abspath cwd start);
            path_list = path_parts (abspath cwd path);
            i = length (commonprefix start_list path_list);
            rel_list = replicate (length start_list - i) ''..'' @ drop i path_list
        in (case rel_list of
              [] \<Rightarrow> Some ''.''
            | r # rs \<Rightarrow> Some (path_join r rs)))"

definition dirname :: "string \<Rightarrow> string" where
  "dirname p =
     (let hd_part = rev (dropWhile (\<lambda>c. c \<noteq> CHR ''/'') (rev p))
      in if hd_part \<noteq> [] \<and> hd_part \<noteq> replicate (length hd_part) CHR ''/''
         then rev (dropWhile (\<lambda>c. c = CHR ''/'') (rev hd_part))
         else hd_part)"

section \<open>Libraries and the outside world\<close>

text \<open>
  The worker calls \<open>urllib.parse\<close>, \<open>bytes.decode\<close> and BeautifulSoup. They are not part
  of the repository: the model takes them as parameters, collected in a record, and
  every theorem below holds for whatever functions are supplied. \<open>None\<close> stands for the
  exception the library raises (\<open>ValueError\<close> for a malformed URL, \<open>LookupError\<close> for an
  unknown encoding). A parsed document is the list of its tags in document order; only
  the name and the attributes of a tag are read or written by the worker.
\<close>

datatype exn = TypeError | ValueError | LookupError

record parsed_url =
  url_scheme :: string
  url_netloc :: string
  url_path :: string

record tag =
  tag_name :: string
  attrs :: "string \<rightharpoonup> string"

record lib =
  urlparse :: "string \<Rightarrow> parsed_url option"
  urljoin :: "string \<Rightarrow> string \<Rightarrow> string option"
  unquote :: "string \<Rightarrow> string"
  decode_ignore :: "string \<Rightarrow> string \<Rightarrow> string option"
  decode_replace :: "string \<Rightarrow> string \<Rightarrow> string option"
  parse_html :: "string \<Rightarrow> tag list"
  str_soup :: "string \<Rightarrow> tag list \<Rightarrow> string"

text \<open>
  The outside world: the working directory, the web as seen through
  \<open>requests.Session.get\<close> followed by \<open>raise_for_status\<close> (\<open>None\<close> is a
  \<open>RequestException\<close>), the Chrome driver, the free space \<open>shutil.disk_usage\<close> reports
  (\<open>None\<close> when it raises), and the \<open>stop()\<close> calls of the GUI thread: \<open>user_stop k\<close> tells
  whether the flag has been set from outside by the time the worker reads it for the
  \<open>k\<close>-th time.
\<close>

record response =
  content :: string
  encoding :: "string option"
  content_type :: string

datatype selenium_result = Page string | SeleniumTimeout | SeleniumError

record env =
  cwd :: string
  http_get :: "string \<Rightarrow> response option"
  selenium_available :: bool
  selenium_init :: bool
  selenium_get :: "string \<Rightarrow> selenium_result"
  disk_usage :: "string \<Rightarrow> (string \<rightharpoonup> string) \<Rightarrow> nat option"
  user_stop :: "nat \<Rightarrow> bool"

section \<open>The worker \<open>ClonerWorker\<close>\<close>

text \<open>
  The entries of the log are the messages sent with \<open>log_message.emit\<close>, one constructor
  per message of the source. The terminal status is the \<open>status_msg\<close> of the report.
\<close>

datatype status_msg = Completed | Stopped_by_user | Failed_or_nothing_to_download

datatype log_entry =
    Starting_clone
  | Clone_type_and_depth
  | Processing string nat
  | Fetching_Requests string
  | Failed_to_download_Requests string
  | Initializing_Selenium
  | Selenium_initialized
  | Failed_to_initialize_Selenium
  | Fetching_Selenium string
  | Selenium_timeout string
  | Selenium_error string
  | Saved_asset string
  | Saved_HTML string nat
  | Error_in_worker exn
  | Traceback
  | Cloning_finished status_msg

text \<open>
  The fields of the object, as \<open>__init__\<close> declares them, followed by what the worker
  changes outside itself (the files it has written, keyed by normalized absolute path, and
  the log) and by two history variables that no code reads: every tuple ever appended to
  \<open>url_queue\<close>, and the number of reads of \<open>stop_requested\<close> so far. \<open>max_depth\<close> is the
  value of a spin box with range 0 to 50. Headers, proxy settings, the request delay and
  the progress, status, file-saved and page-content signals do not influence any of these
  and are left out. File-system calls are taken to succeed.
\<close>

record worker =
  base_url :: string
  dest_path :: string
  clone_type :: string
  use_selenium :: bool
  max_depth :: nat
  visited_urls :: "string set"
  files_downloaded :: nat
  total_size_bytes :: nat
  stop_requested :: bool
  url_queue :: "(string \<times> nat \<times> string) list"
  selenium_driver :: bool
  files :: "string \<rightharpoonup> string"
  emitted :: "log_entry list"
  enqueued :: "(string \<times> nat \<times> string) list"
  clock :: nat

definition init_worker :: "env \<Rightarrow> string \<Rightarrow> string \<Rightarrow> string \<Rightarrow> bool \<Rightarrow> nat \<Rightarrow> worker" where
  "init_worker E base dest ctype use_sel maxd =
     \<lparr> base_url = base, dest_path = dest, clone_type = ctype,
       use_selenium = (use_sel \<and> selenium_available E), max_depth = maxd,
       visited_urls = {}, files_downloaded = 0, total_size_bytes = 0,
       stop_requested = False, url_queue = [], selenium_driver = False,
       files = Map.empty, emitted = [], enqueued = [], clock = 0 \<rparr>"

definition emit :: "log_entry \<Rightarrow> worker \<Rightarrow> worker" where
  "emit e w = w\<lparr>emitted := emitted w @ [e]\<rparr>"

text \<open>One read of \<open>self.stop_requested\<close>: a \<open>stop()\<close> that has happened by now is seen.\<close>

definition read_stop :: "env \<Rightarrow> worker \<Rightarrow> worker" where
  "read_stop E w =
     w\<lparr>stop_requested := (stop_requested w \<or> user_stop E (clock w)), clock := Suc (clock w)\<rparr>"

definition write_file :: "env \<Rightarrow> string \<Rightarrow> string \<Rightarrow> worker \<Rightarrow> worker" where
  "write_file E p c w = w\<lparr>files := (files w)(abspath (cwd E) p \<mapsto> c)\<rparr>"

definition get_domain :: "lib \<Rightarrow> string \<Rightarrow> string" where
  "get_domain L url = (case urlparse L url of None \<Rightarrow> ''invalid_domain'' | Some p \<Rightarrow> url_netloc p)"

subsection \<open>The fetch backends\<close>

definition init_selenium_driver :: "env \<Rightarrow> worker \<Rightarrow> bool \<times> worker" where
  "init_selenium_driver E w =
     (if \<not> use_selenium w then (False, w)
      else
        let w1 = emit Initializing_Selenium w
        in if selenium_init E then (True, emit Selenium_initialized w1)
           else (False, (emit Failed_to_initialize_Selenium w1)\<lparr>use_selenium := False\<rparr>))"

definition selenium_load :: "env \<Rightarrow> string \<Rightarrow> worker \<Rightarrow> string option \<times> worker" where
  "selenium_load E url w =
     (let w1 = emit (Fetching_Selenium url) w
      in case selenium_get E url of
           Page b \<Rightarrow> (Some b, w1)
         | SeleniumTimeout \<Rightarrow> (None, emit (Selenium_timeout url) w1)
         | SeleniumError \<Rightarrow> (None, (emit (Selenium_error url) w1)\<lparr>selenium_driver := False\<rparr>))"

definition fetch_page_with_selenium :: "env \<Rightarrow> string \<Rightarrow> worker \<Rightarrow> string option \<times> worker" where
  "fetch_page_with_selenium E url w =
     (if \<not> selenium_driver w then
        (case init_selenium_driver E w of
           (d, w1) \<Rightarrow>
             if \<not> d then (None, w1\<lparr>selenium_driver := False\<rparr>)
             else selenium_load E url (w1\<lparr>selenium_driver := True\<rparr>))
      else selenium_load E url w)"

definition fetch_page_with_requests :: "env \<Rightarrow> string \<Rightarrow> worker \<Rightarrow> response option \<times> worker" where
  "fetch_page_with_requests E url w =
     (let w1 = emit (Fetching_Requests url) w
      in case http_get E url of
           Some r \<Rightarrow> (Some r, w1)
         | None \<Rightarrow> (None, emit (Failed_to_download_Requests url) w1))"

subsection \<open>Mapping a URL path to a local file\<close>

text \<open>
  \<open>[sanitize_filename(s) for s in path.strip('/').split('/') if s]\<close>, computed for the page
  itself (line 247) and for each link (line 340).
\<close>

definition sanitized_segments :: "string \<Rightarrow> string list" where
  "sanitized_segments p =
     map sanitize_filename (filter (\<lambda>s. s \<noteq> []) (split_on CHR ''/'' (py_strip ''/'' p)))"

definition enc_or_utf8 :: "string option \<Rightarrow> string" where
  "enc_or_utf8 e = (case e of None \<Rightarrow> ''utf-8'' | Some n \<Rightarrow> if n = [] then ''utf-8'' else n)"

text \<open>Lines 231 to 242: is the fetched content an HTML document?\<close>

definition is_html_content :: "lib \<Rightarrow> string \<Rightarrow> response \<Rightarrow> bool" where
  "is_html_content L current_url r =
     (if content_type r \<noteq> [] \<and> contains (py_lower (content_type r)) ''text/html'' then True
      else if content_type r = [] then
        (if list_ex (endswith (py_lower current_url)) [''.html'', ''.htm'', ''.php'']
            \<or> endswith current_url ''/'' then True
         else if content r \<noteq> [] then
           (case decode_ignore L (enc_or_utf8 (encoding r)) (take 1000 (content r)) of
              None \<Rightarrow> False
            | Some decoded_sample \<Rightarrow>
                contains (py_lower decoded_sample) ''<html''
                \<or> contains (py_lower decoded_sample) ''<!doctype html'')
         else False)
      else False)"

text \<open>
  Lines 249 to 276: the file name and directory of the page being processed. The result
  is \<open>(local_file_dir, local_file_path)\<close>.
\<close>

definition page_local_path :: "string \<Rightarrow> string \<Rightarrow> bool \<Rightarrow> string \<times> string" where
  "page_local_path current_save_base_path path_from_url is_html =
     (let path_segments = sanitized_segments path_from_url;
          (filename0, dir_segments) =
            (if endswith path_from_url ''/'' \<or> path_segments = []
             then (''index.html'', path_segments)
             else
               let potential_filename = last path_segments
               in if CHR ''.'' \<in> set potential_filename
                  then (potential_filename, butlast path_segments)
                  else if is_html then (potential_filename @ ''.html'', butlast path_segments)
                  else (potential_filename, butlast path_segments));
          filename = (if filename0 = [] then (if is_html then ''index.html'' else ''resource'')
                      else filename0);
          local_file_dir = (if dir_segments \<noteq> []
                            then path_join current_save_base_path dir_segments
                            else current_save_base_path)
      in (local_file_dir, path_join local_file_dir [filename]))"

definition asset_extensions :: "string list" where
  "asset_extensions =
     [''.css'', ''.js'', ''.png'', ''.jpg'', ''.jpeg'', ''.gif'', ''.svg'', ''.webp'', ''.ico'',
      ''.json'', ''.woff'', ''.woff2'', ''.ttf'', ''.otf'', ''.eot'', ''.mp4'', ''.webm'',
      ''.ogg'', ''.mp3'', ''.pdf'', ''.doc'', ''.docx'', ''.xls'', ''.xlsx'', ''.ppt'',
      ''.pptx'', ''.xml'', ''.txt'']"

text \<open>Lines 321 to 326.\<close>

definition is_asset :: "string \<Rightarrow> string \<Rightarrow> bool" where
  "is_asset link_path tname \<longleftrightarrow>
     list_ex (endswith (py_lower link_path)) asset_extensions
     \<or> tname \<in> set [''img'', ''link'', ''script'', ''source'', ''embed'']"

text \<open>Lines 330 to 336: the root directory for the link's domain.\<close>

definition base_save_path :: "lib \<Rightarrow> worker \<Rightarrow> string \<Rightarrow> string" where
  "base_save_path L w link_domain =
     (if link_domain = get_domain L (base_url w) then dest_path w
      else path_join (dest_path w) [sanitize_filename link_domain])"

text \<open>
  Lines 339 to 369: the file name and directory of a linked resource. The result is
  \<open>(asset_filename, final_asset_local_path)\<close>.
\<close>

definition link_local_path :: "string \<Rightarrow> string \<Rightarrow> string \<Rightarrow> bool \<Rightarrow> string \<times> string" where
  "link_local_path base_save_path_for_link asset_path_from_url absolute_link is_asset_file =
     (let asset_path_segments = sanitized_segments asset_path_from_url;
          link_is_likely_html =
            (list_ex (endswith (py_lower absolute_link)) [''.html'', ''.htm'', ''.php'']
             \<or> endswith absolute_link ''/'');
          (asset_filename0, dir_segments) =
            (if endswith asset_path_from_url ''/'' \<or> asset_path_segments = []
             then (''index.html'', asset_path_segments)
             else
               let potential_asset_fname = last asset_path_segments
               in if CHR ''.'' \<in> set potential_asset_fname
                  then (potential_asset_fname, butlast asset_path_segments)
                  else if link_is_likely_html \<and> \<not> is_asset_file
                  then (potential_asset_fname @ ''.html'', butlast asset_path_segments)
                  else (potential_asset_fname, butlast asset_path_segments));
          asset_filename = (if asset_filename0 = [] then ''resource_default_name''
                            else asset_filename0);
          asset_save_dir = (if dir_segments \<noteq> []
                            then path_join base_save_path_for_link dir_segments
                            else base_save_path_for_link)
      in (asset_filename, path_join asset_save_dir [asset_filename]))"

subsection \<open>Rewriting one reference\<close>

text \<open>
  \<open>str.strip()\<close> without argument removes white space: the characters for which
  \<open>str.isspace\<close> holds.
\<close>

definition whitespace :: "string" where
  "whitespace = [CHR 0x09, CHR 0x0A, CHR 0x0B, CHR 0x0C, CHR 0x0D, CHR 0x1C, CHR 0x1D,
                 CHR 0x1E, CHR 0x1F, CHR 0x20, CHR 0x85, CHR 0xA0]"

definition first_of :: "string list \<Rightarrow> string" where
  "first_of xs = (case xs of [] \<Rightarrow> [] | x # _ \<Rightarrow> x)"

text \<open>
  Lines 310 to 314: the link to process. For \<open>srcset\<close> it is the first candidate;
  \<open>None\<close> is the \<open>continue\<close> of line 313.
\<close>

definition link_to_process :: "string \<Rightarrow> string \<Rightarrow> string option" where
  "link_to_process attr_name original_link_val =
     (if attr_name = ''srcset'' then
        (let links = map (\<lambda>l. first_of (split_on CHR '' '' (py_strip whitespace l)))
                         (split_on CHR '','' original_link_val)
         in if links = [] \<or> first_of links = [] then None else Some (first_of links))
      else Some original_link_val)"

text \<open>
  Lines 371 to 381. \<open>os.sep\<close> is \<open>/\<close>. \<open>os.path.relpath\<close> raises \<open>ValueError\<close> only
  for an empty path; the handler then calls \<open>self.log_message(...)\<close>, which is not
  \<open>self.log_message.emit(...)\<close>: a bound signal is not callable and the call raises
  \<open>TypeError\<close>.
\<close>

definition new_link_value :: "string \<Rightarrow> string \<Rightarrow> string \<Rightarrow> exn + string" where
  "new_link_value wd final_asset_local_path local_file_dir =
     (case relpath wd (abspath wd final_asset_local_path) (abspath wd local_file_dir) of
        None \<Rightarrow> Inl TypeError
      | Some v \<Rightarrow> Inr (py_replace v ''/'' ''/''))"

text \<open>The state of the rewriting pass over one document.\<close>

record page_state =
  pw :: worker
  soup :: "tag list"
  found_new_links_on_page :: nat

definition set_attr :: "nat \<Rightarrow> string \<Rightarrow> string \<Rightarrow> page_state \<Rightarrow> page_state" where
  "set_attr i attr_name v s =
     s\<lparr>soup := (soup s)[i := (soup s ! i)\<lparr>attrs := (attrs (soup s ! i))(attr_name \<mapsto> v)\<rparr>]\<rparr>"

text \<open>Lines 391 to 401: an asset is downloaded unless a non-empty file is already there.\<close>

definition download_asset ::
  "env \<Rightarrow> nat \<Rightarrow> string \<Rightarrow> string \<Rightarrow> string \<Rightarrow> string \<Rightarrow> page_state \<Rightarrow> page_state" where
  "download_asset E i attr_name original_link_val absolute_link final_asset_local_path s =
     (let present = (case files (pw s) (abspath (cwd E) final_asset_local_path) of
                       None \<Rightarrow> False | Some c \<Rightarrow> length c \<noteq> 0)
      in if present then s
         else
           (case fetch_page_with_requests E absolute_link (pw s) of
              (r, w1) \<Rightarrow>
                (case r of
                   Some resp \<Rightarrow>
                     if content resp \<noteq> [] then
                       s\<lparr>pw := emit (Saved_asset final_asset_local_path)
                                 ((write_file E final_asset_local_path (content resp) w1)
                                    \<lparr>files_downloaded := files_downloaded w1 + 1,
                                     total_size_bytes := total_size_bytes w1 + length (content resp)\<rparr>)\<rparr>
                     else set_attr i attr_name (''#FAILED_DOWNLOAD_'' @ original_link_val) (s\<lparr>pw := w1\<rparr>)
                 | None \<Rightarrow>
                     set_attr i attr_name (''#FAILED_DOWNLOAD_'' @ original_link_val) (s\<lparr>pw := w1\<rparr>))))"

text \<open>Lines 402 to 419: a page link that is not visited and below the maximal depth.\<close>

definition should_queue :: "lib \<Rightarrow> worker \<Rightarrow> nat \<Rightarrow> string \<Rightarrow> bool" where
  "should_queue L w depth link_domain =
     (if clone_type w = ''recursive'' \<and> link_domain = get_domain L (base_url w) then True
      else if clone_type w = ''single_page'' \<and> depth = 0 then
        (if link_domain = get_domain L (base_url w) then True else False)
      else False)"

definition admit_link :: "lib \<Rightarrow> nat \<Rightarrow> string \<Rightarrow> string \<Rightarrow> string \<Rightarrow> page_state \<Rightarrow> page_state" where
  "admit_link L depth absolute_link link_domain base_save_path_for_link s =
     (if should_queue L (pw s) depth link_domain then
        s\<lparr>pw := (pw s)\<lparr>url_queue := url_queue (pw s) @ [(absolute_link, depth + 1, base_save_path_for_link)],
                         visited_urls := insert absolute_link (visited_urls (pw s)),
                         enqueued := enqueued (pw s) @ [(absolute_link, depth + 1, base_save_path_for_link)]\<rparr>,
          found_new_links_on_page := found_new_links_on_page s + 1\<rparr>
      else s)"

text \<open>
  Lines 306 to 421: the body of the innermost loop, for the tag at position \<open>i\<close> of the
  document. The result is the exception raised, if any, and the new state.
\<close>

definition process_tag ::
  "lib \<Rightarrow> env \<Rightarrow> string \<Rightarrow> nat \<Rightarrow> string \<Rightarrow> string \<Rightarrow> string \<Rightarrow> nat \<Rightarrow> page_state
     \<Rightarrow> exn option \<times> page_state" where
  "process_tag L E current_url depth local_file_dir tname attr_name i s =
     (case attrs (soup s ! i) attr_name of
        None \<Rightarrow> (None, s)
      | Some original_link_val \<Rightarrow>
          if original_link_val = []
             \<or> list_ex (startswith original_link_val)
                  [''data:'', ''javascript:'', ''mailto:'', ''#'', ''tel:'']
          then (None, s)
          else
            (case link_to_process attr_name original_link_val of
               None \<Rightarrow> (None, s)
             | Some current_link_to_process \<Rightarrow>
                 (case urljoin L current_url current_link_to_process of
                    None \<Rightarrow> (Some ValueError, s)
                  | Some absolute_link \<Rightarrow>
                      (case urlparse L absolute_link of
                         None \<Rightarrow> (Some ValueError, s)
                       | Some parsed_absolute_link \<Rightarrow>
                           if url_scheme parsed_absolute_link \<notin> set [''http'', ''https'']
                           then (None, s)
                           else
                             let is_asset_file = is_asset (url_path parsed_absolute_link) tname;
                                 link_domain = get_domain L absolute_link;
                                 base_save_path_for_link = base_save_path L (pw s) link_domain;
                                 asset_path_from_url = unquote L (url_path parsed_absolute_link);
                                 (asset_filename, final_asset_local_path) =
                                   link_local_path base_save_path_for_link asset_path_from_url
                                     absolute_link is_asset_file
                             in (case new_link_value (cwd E) final_asset_local_path local_file_dir of
                                   Inl e \<Rightarrow> (Some e, s)
                                 | Inr new_value \<Rightarrow>
                                     let s1 = set_attr i attr_name
                                                (if attr_name = ''srcset''
                                                 then py_replace original_link_val
                                                        current_link_to_process new_value
                                                 else new_value) s
                                     in if is_asset_file then
                                          (None, download_asset E i attr_name original_link_val
                                                   absolute_link final_asset_local_path s1)
                                        else if absolute_link \<notin> visited_urls (pw s1)
                                                \<and> depth < max_depth (pw s1) then
                                          (None, admit_link L depth absolute_link link_domain
                                                   base_save_path_for_link s1)
                                        else if link_domain \<noteq> get_domain L (base_url (pw s1))
                                                \<and> \<not> is_asset_file then
                                          (None, set_attr i attr_name absolute_link s1)
                                        else (None, s1))))))"

subsection \<open>The rewriting pass over a document\<close>

text \<open>
  \<open>soup.find_all(tag_name, **{attr_name: True})\<close>: the positions of the tags with that name
  that carry the attribute, in document order.
\<close>

definition find_all :: "tag list \<Rightarrow> string \<Rightarrow> string \<Rightarrow> nat list" where
  "find_all doc tname attr_name =
     filter (\<lambda>i. tag_name (doc ! i) = tname \<and> attrs (doc ! i) attr_name \<noteq> None) [0..<length doc]"

definition tags_to_process :: "(string \<times> string list) list" where
  "tags_to_process =
     [(''a'', [''href'']), (''link'', [''href'']), (''iframe'', [''src'']), (''embed'', [''src'']),
      (''object'', [''data'']), (''img'', [''src'', ''srcset'', ''data-src'']),
      (''script'', [''src'']), (''source'', [''src'']), (''form'', [''action''])]"

text \<open>Lines 303 to 421: the loop over the tags found; line 304 leaves it on a stop.\<close>

fun tag_loop ::
  "lib \<Rightarrow> env \<Rightarrow> string \<Rightarrow> nat \<Rightarrow> string \<Rightarrow> string \<Rightarrow> string \<Rightarrow> nat list \<Rightarrow> page_state
     \<Rightarrow> exn option \<times> page_state" where
  "tag_loop L E current_url depth local_file_dir tname attr_name [] s = (None, s)"
| "tag_loop L E current_url depth local_file_dir tname attr_name (i # rest) s =
     (let s0 = s\<lparr>pw := read_stop E (pw s)\<rparr>
      in if stop_requested (pw s0) then (None, s0)
         else
           (case process_tag L E current_url depth local_file_dir tname attr_name i s0 of
              (Some e, s1) \<Rightarrow> (Some e, s1)
            | (None, s1) \<Rightarrow> tag_loop L E current_url depth local_file_dir tname attr_name rest s1))"

text \<open>Line 302: the loop over the attribute names of one tag name.\<close>

fun attr_loop ::
  "lib \<Rightarrow> env \<Rightarrow> string \<Rightarrow> nat \<Rightarrow> string \<Rightarrow> string \<Rightarrow> string list \<Rightarrow> page_state
     \<Rightarrow> exn option \<times> page_state" where
  "attr_loop L E current_url depth local_file_dir tname [] s = (None, s)"
| "attr_loop L E current_url depth local_file_dir tname (attr_name # rest) s =
     (case tag_loop L E current_url depth local_file_dir tname attr_name
             (find_all (soup s) tname attr_name) s of
        (Some e, s1) \<Rightarrow> (Some e, s1)
      | (None, s1) \<Rightarrow> attr_loop L E current_url depth local_file_dir tname rest s1)"

text \<open>Lines 299 to 423: the loop over the tag names; line 423 leaves it on a stop.\<close>

fun tag_name_loop ::
  "lib \<Rightarrow> env \<Rightarrow> string \<Rightarrow> nat \<Rightarrow> string \<Rightarrow> (string \<times> string list) list \<Rightarrow> page_state
     \<Rightarrow> exn option \<times> page_state" where
  "tag_name_loop L E current_url depth local_file_dir [] s = (None, s)"
| "tag_name_loop L E current_url depth local_file_dir ((tname, attr_names) # rest) s =
     (case attr_loop L E current_url depth local_file_dir tname attr_names s of
        (Some e, s1) \<Rightarrow> (Some e, s1)
      | (None, s1) \<Rightarrow>
          let s2 = s1\<lparr>pw := read_stop E (pw s1)\<rparr>
          in if stop_requested (pw s2) then (None, s2)
             else tag_name_loop L E current_url depth local_file_dir rest s2)"

subsection \<open>One iteration of the main loop\<close>

text \<open>How the body of the \<open>while\<close> loop ends.\<close>

datatype flow = Next | Break | Raise exn

text \<open>
  Lines 212 to 224: the fetch of the task's URL. When the Selenium fetch yields nothing,
  line 221 calls \<open>self.log_message(...)\<close> instead of \<open>self.log_message.emit(...)\<close>; a bound
  signal is not callable, so \<open>TypeError\<close> is raised there and line 222 is not reached.
\<close>

definition fetch_current :: "env \<Rightarrow> string \<Rightarrow> nat \<Rightarrow> worker \<Rightarrow> (exn + response option) \<times> worker" where
  "fetch_current E current_url depth w =
     (if use_selenium w \<and> depth = 0 then
        (case fetch_page_with_selenium E current_url w of
           (Some content_bytes, w1) \<Rightarrow>
             if content_bytes \<noteq> []
             then (Inr (Some \<lparr>content = content_bytes, encoding = Some ''utf-8'',
                               content_type = ''text/html''\<rparr>), w1)
             else (Inl TypeError, w1)
         | (None, w1) \<Rightarrow> (Inl TypeError, w1))
      else
        (case fetch_page_with_requests E current_url w of
           (r, w1) \<Rightarrow> (Inr r, w1)))"

text \<open>
  Lines 278 to 285: the disk-space check. Both the low-space branch (line 282) and the
  handler (line 285) call \<open>self.log_message(...)\<close>, which raises \<open>TypeError\<close>; raised
  inside the \<open>try\<close>, it is caught by the handler, whose own call raises it again.
  The result tells whether the iteration goes on.
\<close>

definition disk_space_check :: "env \<Rightarrow> string \<Rightarrow> worker \<Rightarrow> exn option" where
  "disk_space_check E fetched w =
     (if files_downloaded w mod 10 = 0 then
        (case disk_usage E (dirname (dest_path w)) (files w) of
           None \<Rightarrow> Some TypeError
         | Some free \<Rightarrow> if free < length fetched * 2 then Some TypeError else None)
      else None)"

text \<open>Lines 287 to 445, for content that was fetched and passed the disk-space check.\<close>

definition save_content ::
  "lib \<Rightarrow> env \<Rightarrow> string \<Rightarrow> nat \<Rightarrow> response \<Rightarrow> bool \<Rightarrow> string \<Rightarrow> string \<Rightarrow> worker
     \<Rightarrow> flow \<times> worker" where
  "save_content L E current_url depth r is_html local_file_dir local_file_path w =
     (if is_html then
        (case decode_replace L (enc_or_utf8 (encoding r)) (content r) of
           None \<Rightarrow> (Raise LookupError, w)
         | Some html_content_str \<Rightarrow>
             (case tag_name_loop L E current_url depth local_file_dir tags_to_process
                     \<lparr>pw = w, soup = parse_html L html_content_str, found_new_links_on_page = 0\<rparr> of
                (Some e, s1) \<Rightarrow> (Raise e, pw s1)
              | (None, s1) \<Rightarrow>
                  let w1 = read_stop E (pw s1)
                  in if stop_requested w1 then (Break, w1)
                     else
                       let w2 = write_file E local_file_path
                                  (str_soup L html_content_str (soup s1)) w1;
                           w3 = emit (Saved_HTML local_file_path (found_new_links_on_page s1)) w2;
                           w4 = w3\<lparr>files_downloaded := files_downloaded w3 + 1,
                                   total_size_bytes := total_size_bytes w3 + length (content r)\<rparr>
                       in if clone_type w4 = ''single_page'' \<and> depth = 0
                             \<and> found_new_links_on_page s1 = 0
                          then (Raise TypeError, w4)
                          else (Next, w4)))
      else (Raise TypeError, write_file E local_file_path (content r) w))"

text \<open>Lines 206 to 445: the body of the \<open>while\<close> loop, for a non-empty queue.\<close>

definition iteration :: "lib \<Rightarrow> env \<Rightarrow> worker \<Rightarrow> flow \<times> worker" where
  "iteration L E w =
     (case url_queue w of
        [] \<Rightarrow> (Next, w)
      | (current_url, depth, current_save_base_path_for_url) # rest \<Rightarrow>
          let w0 = emit (Processing current_url depth) (w\<lparr>url_queue := rest\<rparr>)
          in (case fetch_current E current_url depth w0 of
                (Inl e, w1) \<Rightarrow> (Raise e, w1)
              | (Inr None, w1) \<Rightarrow> (Next, w1)
              | (Inr (Some r), w1) \<Rightarrow>
                  let is_html = is_html_content L current_url r
                  in (case urlparse L current_url of
                        None \<Rightarrow> (Raise ValueError, w1)
                      | Some parsed_url \<Rightarrow>
                          (case page_local_path current_save_base_path_for_url
                                  (unquote L (url_path parsed_url)) is_html of
                             (local_file_dir, local_file_path) \<Rightarrow>
                               (case disk_space_check E (content r) w1 of
                                  Some e \<Rightarrow> (Raise e, w1)
                                | None \<Rightarrow>
                                    save_content L E current_url depth r is_html
                                      local_file_dir local_file_path w1)))))"

subsection \<open>The method \<open>run\<close>\<close>

text \<open>Lines 191 to 199.\<close>

definition start :: "worker \<Rightarrow> worker" where
  "start w =
     (let w1 = emit Clone_type_and_depth (emit Starting_clone w)
      in w1\<lparr>url_queue := url_queue w1 @ [(base_url w1, 0, dest_path w1)],
            enqueued := enqueued w1 @ [(base_url w1, 0, dest_path w1)],
            visited_urls := insert (base_url w1) (visited_urls w1)\<rparr>)"

text \<open>
  Lines 203 to 445. The number of iterations is bounded by \<open>n\<close>; \<open>Running\<close> means that
  the loop has not ended after \<open>n\<close> iterations.
\<close>

datatype loop_state = Running | Done | Failed exn

fun while_loop :: "lib \<Rightarrow> env \<Rightarrow> nat \<Rightarrow> worker \<Rightarrow> loop_state \<times> worker" where
  "while_loop L E 0 w = (Running, w)"
| "while_loop L E (Suc n) w =
     (if url_queue w = [] then (Done, w)
      else
        let w0 = read_stop E w
        in if stop_requested w0 then (Done, w0)
           else
             (case iteration L E w0 of
                (Next, w1) \<Rightarrow> while_loop L E n w1
              | (Break, w1) \<Rightarrow> (Done, w1)
              | (Raise e, w1) \<Rightarrow> (Failed e, w1)))"

text \<open>Lines 452 to 470: the \<open>finally\<close> block. The report's status is returned.\<close>

definition finish :: "env \<Rightarrow> worker \<Rightarrow> status_msg \<times> worker" where
  "finish E w =
     (let w1 = read_stop E (w\<lparr>selenium_driver := False\<rparr>);
          status = (if stop_requested w1 then Stopped_by_user
                    else if files_downloaded w1 = 0 \<and> url_queue w1 = []
                    then Failed_or_nothing_to_download
                    else Completed)
      in (status, emit (Cloning_finished status) w1))"

text \<open>
  The whole of \<open>run\<close>, with at most \<open>n\<close> iterations of the loop: \<open>None\<close> when the loop
  has not ended by then. An exception of the loop is logged by the handler of lines 448
  to 451.
\<close>

definition run :: "lib \<Rightarrow> env \<Rightarrow> nat \<Rightarrow> worker \<Rightarrow> (status_msg \<times> worker) option" where
  "run L E n w =
     (case while_loop L E n (start w) of
        (Running, w1) \<Rightarrow> None
      | (Done, w1) \<Rightarrow> Some (finish E w1)
      | (Failed e, w1) \<Rightarrow> Some (finish E (emit Traceback (emit (Error_in_worker e) w1))))"

section \<open>Verification: \<open>sanitize_filename\<close>\<close>

lemma collapse_hd: "collapse_underscores (a # cs) \<noteq> [] \<and> hd (collapse_underscores (a # cs)) = a"
  by (induction "a # cs" arbitrary: a cs rule: collapse_underscores.induct) auto

lemma collapse_no_double: "\<not> has_double (collapse_underscores s)"
proof (induction s rule: collapse_underscores.induct)
  case (1 a b cs)
  then show ?case
    using collapse_hd[of b cs]
    by (cases "collapse_underscores (b # cs)") auto
qed auto

lemma collapse_subset: "x \<in> set (collapse_underscores s) \<Longrightarrow> x \<in> set s"
  by (induction s rule: collapse_underscores.induct) (auto split: if_splits)

lemma has_double_append: "has_double ys \<Longrightarrow> has_double (xs @ ys @ zs)"
proof (induction xs)
  case Nil
  then show ?case by (induction ys rule: has_double.induct) auto
next
  case (Cons x xs)
  then show ?case by (cases "xs @ ys @ zs") auto
qed

lemma has_double_index:
  "has_double s \<longleftrightarrow> (\<exists>i. Suc i < length s \<and> s ! i = CHR ''_'' \<and> s ! Suc i = CHR ''_'')"
proof (induction s rule: has_double.induct)
  case (1 a b cs)
  show ?case
  proof
    assume "has_double (a # b # cs)"
    then consider "a = CHR ''_'' \<and> b = CHR ''_''" | "has_double (b # cs)" by auto
    then show "\<exists>i. Suc i < length (a # b # cs) \<and> (a # b # cs) ! i = CHR ''_'' \<and> (a # b # cs) ! Suc i = CHR ''_''"
    proof cases
      case 1
      then show ?thesis by (intro exI[of _ 0]) simp
    next
      case 2
      with 1 obtain i where "Suc i < length (b # cs) \<and> (b # cs) ! i = CHR ''_'' \<and> (b # cs) ! Suc i = CHR ''_''" by blast
      then show ?thesis by (intro exI[of _ "Suc i"]) simp
    qed
  next
    assume "\<exists>i. Suc i < length (a # b # cs) \<and> (a # b # cs) ! i = CHR ''_'' \<and> (a # b # cs) ! Suc i = CHR ''_''"
    then obtain i where i: "Suc i < length (a # b # cs)" "(a # b # cs) ! i = CHR ''_''" "(a # b # cs) ! Suc i = CHR ''_''" by blast
    show "has_double (a # b # cs)"
    proof (cases i)
      case 0
      with i show ?thesis by simp
    next
      case (Suc j)
      with i have "Suc j < length (b # cs) \<and> (b # cs) ! j = CHR ''_'' \<and> (b # cs) ! Suc j = CHR ''_''" by simp
      with 1 show ?thesis by auto
    qed
  qed
qed auto

lemma strip_decomp: "\<exists>a b. a @ py_strip chars s @ b = s"
proof -
  let ?P = "\<lambda>c. c \<in> set chars"
  let ?d = "dropWhile ?P s"
  have "rev (takeWhile ?P (rev ?d) @ dropWhile ?P (rev ?d)) = ?d"
    by (simp only: takeWhile_dropWhile_id rev_rev_ident)
  then have "rev (dropWhile ?P (rev ?d)) @ rev (takeWhile ?P (rev ?d)) = ?d"
    by (simp only: rev_append)
  then have "takeWhile ?P s @ py_strip chars s @ rev (takeWhile ?P (rev ?d)) = takeWhile ?P s @ ?d"
    by (simp only: py_strip_def)
  then have "takeWhile ?P s @ py_strip chars s @ rev (takeWhile ?P (rev ?d)) = s"
    by (simp only: takeWhile_dropWhile_id)
  then show ?thesis by blast
qed

lemma strip_subset: "x \<in> set (py_strip chars s) \<Longrightarrow> x \<in> set s"
  by (auto simp: py_strip_def dest!: set_dropWhileD)

lemma dropWhile_all_nil: "(\<forall>x\<in>set (dropWhile P xs). P x) \<Longrightarrow> dropWhile P xs = []"
  by (metis hd_dropWhile hd_in_set)

lemma strip_nil_iff: "py_strip chars s = [] \<longleftrightarrow> set s \<subseteq> set chars"
proof
  assume "py_strip chars s = []"
  then have "dropWhile (\<lambda>c. c \<in> set chars) (rev (dropWhile (\<lambda>c. c \<in> set chars) s)) = []"
    by (simp only: py_strip_def rev_is_Nil_conv)
  then have "\<forall>x\<in>set (rev (dropWhile (\<lambda>c. c \<in> set chars) s)). x \<in> set chars"
    by (simp only: dropWhile_eq_Nil_conv)
  then have "\<forall>x\<in>set (dropWhile (\<lambda>c. c \<in> set chars) s). x \<in> set chars"
    by (simp only: set_rev)
  then have "dropWhile (\<lambda>c. c \<in> set chars) s = []"
    by (rule dropWhile_all_nil)
  then show "set s \<subseteq> set chars"
    by (auto simp only: dropWhile_eq_Nil_conv)
next
  assume "set s \<subseteq> set chars"
  then have "dropWhile (\<lambda>c. c \<in> set chars) s = []"
    by (auto simp only: dropWhile_eq_Nil_conv)
  then show "py_strip chars s = []"
    by (simp only: py_strip_def rev.simps dropWhile.simps)
qed

lemma underscore_legal: "\<not> illegal_char (CHR ''_'')"
  by (simp add: illegal_char_def)

lemma replace_illegal_legal: "c \<in> set (replace_illegal s) \<Longrightarrow> \<not> illegal_char c"
  by (auto simp: replace_illegal_def underscore_legal split: if_splits)

lemma untitled_legal: "c \<in> set ''untitled'' \<Longrightarrow> \<not> illegal_char c"
  by (auto simp: illegal_char_def)

lemma sanitize_unfold:
  "sanitize_filename s = take 200 (if stripped s = [] then ''untitled'' else stripped s)"
  by (simp add: sanitize_filename_def stripped_def Let_def)

lemma stripped_legal: "c \<in> set (stripped s) \<Longrightarrow> \<not> illegal_char c"
  unfolding stripped_def
  by (blast dest: strip_subset collapse_subset replace_illegal_legal)

lemma stripped_no_double: "\<not> has_double (stripped s)"
proof
  assume h: "has_double (stripped s)"
  obtain a b where "a @ stripped s @ b = collapse_underscores (replace_illegal s)"
    unfolding stripped_def using strip_decomp by blast
  with has_double_append[OF h, of a b] collapse_no_double show False by simp
qed

lemma untitled_no_double: "\<not> has_double ''untitled''"
  by simp

lemma take_no_double: "\<not> has_double xs \<Longrightarrow> \<not> has_double (take n xs)"
  using has_double_append[of "take n xs" "[]" "drop n xs"] by auto

lemma sanitize_nonempty: "sanitize_filename s \<noteq> []"
  by (simp add: sanitize_unfold)

lemma sanitize_length: "length (sanitize_filename s) \<le> 200"
  by (simp add: sanitize_unfold)

lemma sanitize_legal: "c \<in> set (sanitize_filename s) \<Longrightarrow> \<not> illegal_char c"
  unfolding sanitize_unfold
proof (cases "stripped s = []")
  case True
  then show "c \<in> set (take 200 (if stripped s = [] then ''untitled'' else stripped s)) \<Longrightarrow> \<not> illegal_char c"
    by (simp add: illegal_char_def) auto
next
  case False
  then show "c \<in> set (take 200 (if stripped s = [] then ''untitled'' else stripped s)) \<Longrightarrow> \<not> illegal_char c"
    by (auto dest!: in_set_takeD dest: stripped_legal)
qed

lemma sanitize_no_double: "\<not> has_double (sanitize_filename s)"
  unfolding sanitize_unfold
  by (rule take_no_double) (simp add: stripped_no_double)

lemma sanitize_untitled:
  assumes "\<forall>c\<in>set s. illegal_char c \<or> c = CHR ''_'' \<or> c = CHR '' ''"
  shows "sanitize_filename s = ''untitled''"
proof -
  have "set (replace_illegal s) \<subseteq> set ''_ ''"
    using assms by (auto simp: replace_illegal_def)
  then have "set (collapse_underscores (replace_illegal s)) \<subseteq> set ''_ ''"
    using collapse_subset by blast
  then have "stripped s = []"
    unfolding stripped_def by (simp only: strip_nil_iff)
  then show ?thesis by (simp add: sanitize_unfold)
qed

text \<open>
  Claim C10. For every input, \<open>sanitize_filename\<close> returns a non-empty string of at most
  200 characters that contains none of \<open>< > : " / \ | ? *\<close>, no control character
  (code points 0 to 31) and no two adjacent underscores; an input made only of such
  characters, underscores and spaces yields \<open>untitled\<close>.
\<close>

theorem sanitize_filename_safe:
  "sanitize_filename s \<noteq> []
   \<and> length (sanitize_filename s) \<le> 200
   \<and> (\<forall>c\<in>set (sanitize_filename s). \<not> illegal_char c)
   \<and> (\<forall>i. Suc i < length (sanitize_filename s) \<longrightarrow>
          \<not> (sanitize_filename s ! i = CHR ''_'' \<and> sanitize_filename s ! Suc i = CHR ''_''))
   \<and> ((\<forall>c\<in>set s. illegal_char c \<or> c = CHR ''_'' \<or> c = CHR '' '') \<longrightarrow>
          sanitize_filename s = ''untitled'')"
proof -
  have "\<forall>i. Suc i < length (sanitize_filename s) \<longrightarrow>
          \<not> (sanitize_filename s ! i = CHR ''_'' \<and> sanitize_filename s ! Suc i = CHR ''_'')"
    using sanitize_no_double[of s] unfolding has_double_index by blast
  then show ?thesis
    using sanitize_nonempty sanitize_length sanitize_legal sanitize_untitled by blast
qed

theorem sanitize_filename_safe_witness:
  "sanitize_filename ''<__>'' = ''untitled''
   \<and> sanitize_filename ''a<b'' \<noteq> []
   \<and> length (sanitize_filename ''a<b'') \<le> 200"
  using sanitize_filename_safe[of "''<__>''"] sanitize_filename_safe[of "''a<b''"]
  by (simp add: illegal_char_def)

end
